theory Spec2Isabelle
  imports Complex_Main "HOL-Library.Word"
begin

section \<open>The SONAR byte/tone codec and the dSONAR reverse reconstruction\<close>

text \<open>
  The development embeds the frequency codec of \<^verbatim>\<open>mbx_sonar.c\<close> and the decoders of
  \<^verbatim>\<open>mbx_dsonar.c\<close>. Conventions of the embedding:
  \<^item> \<^verbatim>\<open>unsigned char\<close> is \<open>8 word\<close>, \<^verbatim>\<open>short\<close> is \<open>16 word\<close> read with \<open>sint\<close>;
  \<^item> \<^verbatim>\<open>double\<close> is \<open>real\<close>: arithmetic is exact, the rounding of IEEE 754 binary64
    is not part of the model. The conversion of a double to an integer type truncates
    towards zero, as in C;
  \<^item> a pointer that may be \<^verbatim>\<open>NULL\<close> is an \<open>option\<close>; \<^verbatim>\<open>malloc\<close> is taken to succeed;
  \<^item> counters of type \<^verbatim>\<open>int\<close> that count samples or lines are \<open>int\<close>: an artifact is
    taken to hold fewer than \<open>2^31\<close> lines, so that none of them overflows. The byte
    counter of the partition combiner, which adds up the sizes of files, is the 32-bit
    \<^verbatim>\<open>int\<close> of the code.
\<close>

subsection \<open>Configuration records\<close>

record sonar_config =
  sample_rate :: int
  base_frequency :: real
  frequency_range :: real
  sample_duration :: real
  use_dynamic_lib :: bool

record dsonar_config =
  base_frequency :: real
  frequency_range :: real
  tolerance :: real
  strict_mode :: bool
  input_format :: string


definition default_dsonar_config :: dsonar_config where
  "default_dsonar_config =
     \<lparr> dsonar_config.base_frequency = 220, dsonar_config.frequency_range = 2000,
       tolerance = 5, strict_mode = False, input_format = ''auto'' \<rparr>"

subsection \<open>Conversions of C\<close>

definition double_to_int :: "real \<Rightarrow> int" where
  \<comment> \<open>\<^verbatim>\<open>(int)x\<close>: the fractional part is discarded.\<close>
  "double_to_int x = (if 0 \<le> x then \<lfloor>x\<rfloor> else \<lceil>x\<rceil>)"

definition double_to_uchar :: "real \<Rightarrow> 8 word" where
  \<comment> \<open>\<^verbatim>\<open>(unsigned char)x\<close>. C defines it when the truncated value is in \<open>0..255\<close>;
      outside of it the model keeps the low eight bits.\<close>
  "double_to_uchar x = word_of_int (double_to_int x)"

subsection \<open>Frequency codec\<close>

definition map_byte_to_frequency :: "8 word \<Rightarrow> sonar_config \<Rightarrow> real" where
  "map_byte_to_frequency byte config =
     (let normalized = real (unat byte) / 255
      in sonar_config.base_frequency config
           + normalized * sonar_config.frequency_range config)"

definition map_byte_to_amplitude :: "8 word \<Rightarrow> real" where
  "map_byte_to_amplitude byte = 1 / 10 + (real (unat byte) / 255) * (9 / 10)"

definition frequency_to_byte :: "real \<Rightarrow> dsonar_config \<Rightarrow> 8 word" where
  \<comment> \<open>With \<open>frequency_range = 0\<close> and \<open>frequency = base_frequency\<close> the C code divides
      zero by zero and converts the result, which C leaves undefined; statements about
      the last branch assume \<open>frequency_range \<noteq> 0\<close>.\<close>
  "frequency_to_byte frequency config =
     (if frequency < dsonar_config.base_frequency config then 0
      else if frequency > dsonar_config.base_frequency config
                            + dsonar_config.frequency_range config then 255
      else
        (let normalized = (frequency - dsonar_config.base_frequency config)
                            / dsonar_config.frequency_range config
         in double_to_uchar (normalized * 255 + 1 / 2)))"

subsection \<open>Reverse sample lists\<close>

text \<open>
  The struct \<^verbatim>\<open>reverse_sample_node\<close> with its \<^verbatim>\<open>next\<close> pointer: a list is the head pointer,
  \<open>None\<close> when it is \<^verbatim>\<open>NULL\<close>.
\<close>

datatype reverse_sample_node =
  Node (reconstructed_byte: "8 word") (source_frequency: real) (confidence_score: real)
       (sample_index: int) (next_node: "reverse_sample_node option")

definition create_reverse_sample :: "real \<Rightarrow> int \<Rightarrow> dsonar_config \<Rightarrow> reverse_sample_node" where
  "create_reverse_sample frequency index config =
     Node (frequency_to_byte frequency config) frequency (1 / 2) index None"

fun set_confidence_score :: "reverse_sample_node \<Rightarrow> real \<Rightarrow> reverse_sample_node" where
  \<comment> \<open>the assignment \<^verbatim>\<open>sample->confidence_score = c\<close>\<close>
  "set_confidence_score (Node b f c i nxt) c' = Node b f c' i nxt"

fun append_at_tail :: "reverse_sample_node \<Rightarrow> reverse_sample_node \<Rightarrow> reverse_sample_node" where
  \<comment> \<open>the walk \<^verbatim>\<open>while (current->next) current = current->next; current->next = sample\<close>\<close>
  "append_at_tail (Node b f c i nxt) sample =
     (case nxt of
        None \<Rightarrow> Node b f c i (Some sample)
      | Some current \<Rightarrow> Node b f c i (Some (append_at_tail current sample)))"

definition add_reverse_sample ::
  "reverse_sample_node option \<Rightarrow> reverse_sample_node option \<Rightarrow> reverse_sample_node option" where
  \<comment> \<open>The first argument is the list that \<^verbatim>\<open>*head\<close> points to, the result the list it
      points to afterwards; every caller passes the address of its list, never \<^verbatim>\<open>NULL\<close>.\<close>
  "add_reverse_sample head sample =
     (case sample of
        None \<Rightarrow> head
      | Some s \<Rightarrow> (case head of None \<Rightarrow> Some s | Some h \<Rightarrow> Some (append_at_tail h s)))"

fun count_samples :: "reverse_sample_node option \<Rightarrow> int \<Rightarrow> int" where
  "count_samples None count = count"
| "count_samples (Some (Node b f c i nxt)) count = count_samples nxt (count + 1)"

fun fill_bytes ::
  "reverse_sample_node option \<Rightarrow> int \<Rightarrow> int \<Rightarrow> 8 word list \<Rightarrow> 8 word list" where
  "fill_bytes None i count bytes = bytes"
| "fill_bytes (Some (Node b f c idx nxt)) i count bytes =
     (if i < count then fill_bytes nxt (i + 1) count (bytes[nat i := b]) else bytes)"

definition samples_to_bytes ::
  "reverse_sample_node option \<Rightarrow> int \<Rightarrow> 8 word list option \<times> int" where
  \<comment> \<open>The second argument is what \<^verbatim>\<open>*length\<close> holds before the call; the result is the
      returned buffer and what \<^verbatim>\<open>*length\<close> holds after it. The fresh buffer is written at
      every index before it is returned, so its initial content (zeros here) never shows.\<close>
  "samples_to_bytes head length0 =
     (case head of
        None \<Rightarrow> (None, length0)
      | Some h \<Rightarrow>
          (let count = count_samples head 0
           in if count = 0 then (None, 0)
              else (Some (fill_bytes head 0 count (replicate (nat count) 0)), count)))"

subsection \<open>Reconstruction results\<close>

record dsonar_result =
  reconstructed_data :: "8 word list option"
  data_length :: int
  average_confidence :: real
  successful_samples :: int
  total_samples :: int

fun sample_statistics ::
  "real \<Rightarrow> reverse_sample_node option \<Rightarrow> int \<times> int \<times> real \<Rightarrow> int \<times> int \<times> real" where
  \<comment> \<open>The statistics loop of \<^verbatim>\<open>reconstruct_from_json\<close> (threshold \<open>0.5\<close>) and of
      \<^verbatim>\<open>reconstruct_from_analysis\<close> (threshold \<open>0.6\<close>); the state is
      \<^verbatim>\<open>(total_samples, successful_samples, total_confidence)\<close>.\<close>
  "sample_statistics threshold None st = st"
| "sample_statistics threshold (Some (Node b f c i nxt)) (n_total, n_successful, total_confidence) =
     sample_statistics threshold nxt
       (n_total + 1, (if c > threshold then n_successful + 1 else n_successful),
        total_confidence + c)"

definition result_of_samples :: "real \<Rightarrow> reverse_sample_node option \<Rightarrow> dsonar_result" where
  \<comment> \<open>The common tail of \<^verbatim>\<open>reconstruct_from_json\<close> and \<^verbatim>\<open>reconstruct_from_analysis\<close>:
      the byte buffer, then the statistics. Both callers reach it with a list that is not
      empty, so that \<^verbatim>\<open>data_length\<close> is always assigned.\<close>
  "result_of_samples threshold samples =
     (let (data, len) = samples_to_bytes samples 0;
          (n_total, n_successful, total_confidence) =
             sample_statistics threshold samples (0, 0, 0)
      in \<lparr> reconstructed_data = data, data_length = len,
           average_confidence =
             (if n_total > 0 then total_confidence / real_of_int n_total else 0),
           successful_samples = n_successful, total_samples = n_total \<rparr>)"

subsection \<open>Artifacts as the decoders read them\<close>

text \<open>
  The decoders read text with \<^verbatim>\<open>fgets\<close> and take a line apart with \<^verbatim>\<open>strstr\<close>,
  \<^verbatim>\<open>strlen\<close> and \<^verbatim>\<open>sscanf\<close>. These library calls are not modelled: a line is
  represented by what they return on it, and a file that cannot be opened is \<open>None\<close>.
\<close>

record csv_row =
  sample :: int
  byte_hex :: string
  byte_dec :: int
  frequency_hz :: real
  amplitude :: real
  duration_s :: real

text \<open>
  A line of the frequency table is \<open>Some row\<close> when
  \<^verbatim>\<open>sscanf(line, "%d,%7[^,],%d,%lf,%lf,%lf", ...)\<close> returns 6, and \<open>None\<close> otherwise.
\<close>

type_synonym csv_line = "csv_row option"

text \<open>
  A line of the metadata document. \<open>frequency_scan\<close> is \<open>Some f\<close> when the line contains
  \<^verbatim>\<open>"frequency":\<close> and \<^verbatim>\<open>sscanf\<close> reads \<open>f\<close> from it. \<open>byte_scans\<close> lists the lines that
  the inner loop then visits between the offsets \<open>pos - 200\<close> and \<open>pos + 100\<close>, in the
  order it reads them: \<open>Some v\<close> for a line that contains \<^verbatim>\<open>"byte":\<close> and from which
  \<^verbatim>\<open>sscanf\<close> reads the hexadecimal \<open>v\<close>, \<open>None\<close> for any other line.
\<close>

record json_line =
  frequency_scan :: "real option"
  byte_scans :: "32 word option list"

text \<open>
  A line of the analysis report: whether \<^verbatim>\<open>strstr\<close> finds \<^verbatim>\<open>Detailed Sample Data\<close> in it,
  its \<^verbatim>\<open>strlen\<close>, and the four values \<open>(byte_val, frequency, amplitude, duration)\<close> when
  \<^verbatim>\<open>sscanf(line, "0x%X\t%lf\t\t%lf\t%lf", ...)\<close> returns 4.
\<close>

record report_line =
  has_marker :: bool
  line_length :: nat
  report_scan :: "(32 word \<times> real \<times> real \<times> real) option"

text \<open>
  An audio container: what \<^verbatim>\<open>read_wav_header\<close> extracts from the first 44 bytes
  (\<open>(sample_rate, channels, bits_per_sample)\<close>, or \<open>None\<close> when it returns 0), and the
  16-bit values that follow the header.
\<close>

record wav_file =
  wav_header :: "(int \<times> int \<times> int) option"
  wav_data :: "16 word list"

subsection \<open>Metadata document decoder\<close>

fun find_byte_val :: "32 word option list \<Rightarrow> 32 word \<Rightarrow> 32 word" where
  \<comment> \<open>the inner \<^verbatim>\<open>while\<close> loop: it leaves at the first line that scans\<close>
  "find_byte_val [] byte_val = byte_val"
| "find_byte_val (None # byte_lines) byte_val = find_byte_val byte_lines byte_val"
| "find_byte_val (Some v # byte_lines) byte_val = v"

fun parse_json_lines ::
  "dsonar_config \<Rightarrow> json_line list \<Rightarrow> reverse_sample_node option \<Rightarrow> int
     \<Rightarrow> reverse_sample_node option \<times> int" where
  "parse_json_lines config [] samples index = (samples, index)"
| "parse_json_lines config (line # rest) samples index =
     (case frequency_scan line of
        None \<Rightarrow> parse_json_lines config rest samples index
      | Some frequency \<Rightarrow>
          (let byte_val = find_byte_val (byte_scans line) 0;
               new_sample = create_reverse_sample frequency index config;
               reconstructed = frequency_to_byte frequency config;
               scored =
                 (if byte_val > 0 \<and> reconstructed = (ucast byte_val :: 8 word)
                  then set_confidence_score new_sample 1
                  else set_confidence_score new_sample (8 / 10))
           in parse_json_lines config rest
                (add_reverse_sample samples (Some scored)) (index + 1)))"

definition parse_json_metadata ::
  "json_line list option \<Rightarrow> reverse_sample_node option \<Rightarrow> dsonar_config
     \<Rightarrow> bool \<times> reverse_sample_node option" where
  "parse_json_metadata file samples config =
     (case file of
        None \<Rightarrow> (False, samples)
      | Some lines \<Rightarrow>
          (let (samples', index) = parse_json_lines config lines samples 0
           in (index > 0, samples')))"

definition reconstruct_from_json ::
  "json_line list option \<Rightarrow> dsonar_config \<Rightarrow> dsonar_result option" where
  "reconstruct_from_json json_file config =
     (case json_file of
        None \<Rightarrow> None
      | Some lines \<Rightarrow>
          (case parse_json_metadata json_file None config of
             (False, samples) \<Rightarrow> None
           | (True, samples) \<Rightarrow> Some (result_of_samples (1 / 2) samples)))"

subsection \<open>Analysis report decoder\<close>

function parse_report_lines ::
  "dsonar_config \<Rightarrow> report_line list \<Rightarrow> bool \<Rightarrow> reverse_sample_node option \<Rightarrow> int
     \<Rightarrow> reverse_sample_node option \<times> int" where
  "parse_report_lines config [] in_data_section samples index = (samples, index)"
| "parse_report_lines config (line # rest) in_data_section samples index =
     (if has_marker line
      then parse_report_lines config (drop 2 rest) True samples index
      else if in_data_section \<and> line_length line > 10
      then
        (case report_scan line of
           Some (byte_val, frequency, amp, dur) \<Rightarrow>
             parse_report_lines config rest in_data_section
               (add_reverse_sample samples
                  (Some (set_confidence_score
                           (create_reverse_sample frequency index config) (85 / 100))))
               (index + 1)
         | None \<Rightarrow> parse_report_lines config rest in_data_section samples index)
      else parse_report_lines config rest in_data_section samples index)"
  by pat_completeness auto
termination
  by (relation "measure (\<lambda>(config, lines, in_data_section, samples, index). length lines)") auto

definition parse_analysis_report ::
  "report_line list option \<Rightarrow> reverse_sample_node option \<Rightarrow> dsonar_config
     \<Rightarrow> bool \<times> reverse_sample_node option" where
  "parse_analysis_report file samples config =
     (case file of
        None \<Rightarrow> (False, samples)
      | Some lines \<Rightarrow>
          (let (samples', index) = parse_report_lines config lines False samples 0
           in (index > 0, samples')))"

definition reconstruct_from_analysis ::
  "report_line list option \<Rightarrow> dsonar_config \<Rightarrow> dsonar_result option" where
  "reconstruct_from_analysis analysis_file config =
     (case parse_analysis_report analysis_file None config of
        (False, samples) \<Rightarrow> None
      | (True, samples) \<Rightarrow> Some (result_of_samples (6 / 10) samples))"

subsection \<open>Frequency table decoder\<close>

fun read_csv_rows ::
  "csv_line list \<Rightarrow> int \<Rightarrow> 8 word list \<times> int \<times> int \<times> real
     \<Rightarrow> 8 word list \<times> int \<times> int \<times> real" where
  \<comment> \<open>The second \<^verbatim>\<open>while\<close> loop of \<^verbatim>\<open>reconstruct_from_csv\<close>; the state is
      \<^verbatim>\<open>(reconstructed_data, bytes_read, successful_samples, total_confidence)\<close>.\<close>
  "read_csv_rows [] sample_count st = st"
| "read_csv_rows (line # rest) sample_count (data, bytes_read, n_successful, total_confidence) =
     (if bytes_read < sample_count
      then
        (case line of
           Some row \<Rightarrow>
             read_csv_rows rest sample_count
               (data[nat bytes_read := word_of_int (byte_dec row)], bytes_read + 1,
                n_successful + 1, total_confidence + amplitude row)
         | None \<Rightarrow>
             read_csv_rows rest sample_count (data, bytes_read, n_successful, total_confidence))
      else (data, bytes_read, n_successful, total_confidence))"

definition reconstruct_from_csv ::
  "csv_line list option \<Rightarrow> dsonar_config \<Rightarrow> dsonar_result option" where
  \<comment> \<open>The first line is the header; the buffer of \<^verbatim>\<open>sample_count\<close> bytes starts as zeros
      here, and only its first \<^verbatim>\<open>data_length\<close> bytes are ever read afterwards.\<close>
  "reconstruct_from_csv csv_file config =
     (case csv_file of
        None \<Rightarrow> None
      | Some [] \<Rightarrow> None
      | Some (header # data_lines) \<Rightarrow>
          (let sample_count = int (length data_lines)
           in if sample_count = 0 then None
              else
                (let (data, bytes_read, n_successful, total_confidence) =
                       read_csv_rows data_lines sample_count
                         (replicate (nat sample_count) 0, 0, 0, 0)
                 in Some \<lparr> reconstructed_data = Some data, data_length = bytes_read,
                           average_confidence =
                             (if n_successful > 0
                              then total_confidence / real_of_int n_successful else 0),
                           successful_samples = n_successful,
                           total_samples = sample_count \<rparr>)))"

subsection \<open>Acoustic decoder\<close>

definition detect_dominant_frequency :: "16 word list \<Rightarrow> int \<Rightarrow> int \<Rightarrow> real" where
  \<comment> \<open>The buffer holds \<open>buffer_size\<close> values. With a sampling rate of 0 the C code
      divides by an infinite duration and obtains the frequency 0, which is what the
      division by zero of HOL yields as well.\<close>
  "detect_dominant_frequency audio_buffer buffer_size rate =
     (if buffer_size < 10 then 0
      else
        (let zero_crossings =
               foldl (\<lambda>z i.
                        if (0 \<le> sint (audio_buffer ! (i - 1)) \<and> sint (audio_buffer ! i) < 0)
                           \<or> (sint (audio_buffer ! (i - 1)) < 0 \<and> 0 \<le> sint (audio_buffer ! i))
                        then z + 1 else z)
                     (0 :: int) [1..<nat buffer_size]
         in if zero_crossings > 0
            then
              (let dur = real_of_int buffer_size / real_of_int rate;
                   frequency = (real_of_int zero_crossings / 2) / dur
               in if 200 \<le> frequency \<and> frequency \<le> 3000 then frequency else 0)
            else 0))"

partial_function (option) analyze_chunks ::
  "dsonar_config \<Rightarrow> int \<Rightarrow> int \<Rightarrow> 16 word list \<Rightarrow> reverse_sample_node option \<Rightarrow> int
     \<Rightarrow> (reverse_sample_node option \<times> int) option" where
  \<comment> \<open>The \<^verbatim>\<open>while (fread(...) == chunk_size)\<close> loop over what is left of the data. It is
      entered with \<open>0 \<le> chunk_size\<close>; with \<open>chunk_size = 0\<close> (and a \<^verbatim>\<open>malloc\<close> that returns a
      pointer for the size 0) every \<^verbatim>\<open>fread\<close> returns 0 and the loop never ends, which is
      the value \<open>None\<close>.\<close>
  "analyze_chunks config chunk_size rate remaining samples index =
     (if chunk_size \<le> int (length remaining)
      then
        (let audio_buffer = take (nat chunk_size) remaining;
             estimated_frequency = detect_dominant_frequency audio_buffer chunk_size rate
         in if estimated_frequency > 0
            then analyze_chunks config chunk_size rate (drop (nat chunk_size) remaining)
                   (add_reverse_sample samples
                      (Some (set_confidence_score
                               (create_reverse_sample estimated_frequency index config)
                               (7 / 10))))
                   (index + 1)
            else analyze_chunks config chunk_size rate (drop (nat chunk_size) remaining)
                   samples index)
      else Some (samples, index))"

definition reconstruct_from_wav ::
  "wav_file option \<Rightarrow> dsonar_config \<Rightarrow> dsonar_result option option" where
  \<comment> \<open>\<open>None\<close>: the call does not return; \<open>Some None\<close>: it returns \<^verbatim>\<open>NULL\<close>. A negative
      \<open>chunk_size\<close> asks \<^verbatim>\<open>malloc\<close> for more than the address space, which fails.\<close>
  "reconstruct_from_wav file config =
     (case file of
        None \<Rightarrow> Some None
      | Some wav \<Rightarrow>
          (case wav_header wav of
             None \<Rightarrow> Some None
           | Some (rate, channels, bits_per_sample) \<Rightarrow>
               (let chunk_size = double_to_int (dsonar_config.base_frequency config * (5 / 100))
                in if chunk_size < 0 then Some None
                   else
                     (case analyze_chunks config chunk_size rate (wav_data wav) None 0 of
                        None \<Rightarrow> None
                      | Some (samples, index) \<Rightarrow>
                          if index = 0 then Some None
                          else
                            (let (data, len) = samples_to_bytes samples 0
                             in Some (Some \<lparr> reconstructed_data = data, data_length = len,
                                              average_confidence = 7 / 10,
                                              successful_samples = index,
                                              total_samples = index \<rparr>))))))"

subsection \<open>Accuracy validation\<close>

definition min_c :: "int \<Rightarrow> int \<Rightarrow> int" where
  \<comment> \<open>the static helper \<^verbatim>\<open>min\<close>\<close>
  "min_c a b = (if a < b then a else b)"

definition calculate_reconstruction_accuracy ::
  "8 word list option \<Rightarrow> 8 word list option \<Rightarrow> int \<Rightarrow> real" where
  \<comment> \<open>The loop reads both buffers at every index below \<open>len\<close>: the caller has to pass a
      length that lies within both.\<close>
  "calculate_reconstruction_accuracy original reconstructed len =
     (case original of
        None \<Rightarrow> 0
      | Some orig \<Rightarrow>
          (case reconstructed of
             None \<Rightarrow> 0
           | Some recon \<Rightarrow>
               if len \<le> 0 then 0
               else
                 (let matches =
                        foldl (\<lambda>m i. if orig ! i = recon ! i then m + 1 else m)
                              (0 :: int) [0..<nat len]
                  in real_of_int matches / real_of_int len)))"

definition mbx_dsonar_accuracy :: "8 word list \<Rightarrow> dsonar_result \<Rightarrow> real" where
  \<comment> \<open>The call in \<^verbatim>\<open>mbx_dsonar\<close>. The target structure and the macro that selects its
      partition are declared outside of these sources: the partition is the first
      argument, and its length is \<^verbatim>\<open>partition_size\<close>.\<close>
  "mbx_dsonar_accuracy original_partition result =
     calculate_reconstruction_accuracy (Some original_partition) (reconstructed_data result)
       (min_c (int (length original_partition)) (data_length result))"

subsection \<open>Partition combiner\<close>

text \<open>
  The file system is a function from the partition index to the content of
  \<^verbatim>\<open>dsonar_reconstructed_partition_<index>.bin\<close>, \<open>None\<close> when the file cannot be opened.
  The output file has another name and \<^verbatim>\<open>fwrite\<close> is taken to succeed. The counter
  \<^verbatim>\<open>total_bytes\<close> is a 32-bit \<^verbatim>\<open>int\<close> to which the \<^verbatim>\<open>size_t\<close> results of \<^verbatim>\<open>fread\<close> are
  added: it wraps around modulo \<open>2^32\<close> and is read as a signed value.
\<close>

function copy_partition ::
  "8 word list \<Rightarrow> 8 word list \<Rightarrow> 32 word \<Rightarrow> 8 word list \<times> 32 word" where
  "copy_partition partition_data output total_bytes =
     (let buffer = take 4096 partition_data
      in if length buffer > 0
         then copy_partition (drop 4096 partition_data) (output @ buffer)
                (total_bytes + word_of_nat (length buffer))
         else (output, total_bytes))"
  by pat_completeness auto
termination
  by (relation "measure (\<lambda>(partition_data, output, total_bytes). length partition_data)") auto

declare copy_partition.simps [simp del]

record combine_outcome =
  output_file :: "8 word list option"
  warnings :: "int list"
  success :: bool

function combine_partitions ::
  "(int \<Rightarrow> 8 word list option) \<Rightarrow> int \<Rightarrow> int \<Rightarrow> 8 word list \<Rightarrow> 32 word \<Rightarrow> int list
     \<Rightarrow> 8 word list \<times> 32 word \<times> int list" where
  \<comment> \<open>The \<^verbatim>\<open>for\<close> loop; the last component lists the indices for which the warning
      \<^verbatim>\<open>Could not open partition file\<close> is printed.\<close>
  "combine_partitions files i partition_count output total_bytes warned =
     (if i < partition_count
      then
        (case files i of
           None \<Rightarrow>
             combine_partitions files (i + 1) partition_count output total_bytes (warned @ [i])
         | Some partition_data \<Rightarrow>
             (case copy_partition partition_data output total_bytes of
                (output', total_bytes') \<Rightarrow>
                  combine_partitions files (i + 1) partition_count output' total_bytes' warned))
      else (output, total_bytes, warned))"
  by pat_completeness auto
termination
  by (relation "measure (\<lambda>(files, i, partition_count, output, total_bytes, warned).
                           nat (partition_count - i))") auto

declare combine_partitions.simps [simp del]

definition combine_partition_files ::
  "(int \<Rightarrow> 8 word list option) \<Rightarrow> bool \<Rightarrow> int \<Rightarrow> combine_outcome" where
  \<comment> \<open>The second argument tells whether the output file can be created. The outcome is
      the content of the output file, if there is one, the warnings and the returned
      flag.\<close>
  "combine_partition_files files output_creatable partition_count =
     (if \<not> output_creatable
      then \<lparr> output_file = None, warnings = [], success = False \<rparr>
      else
        (case combine_partitions files 0 partition_count [] 0 [] of
           (output, total_bytes, warned) \<Rightarrow>
             \<lparr> output_file = Some output, warnings = warned,
               success = (sint total_bytes > 0) \<rparr>))"

subsection \<open>Notions used to state the properties\<close>

fun nodes_of :: "reverse_sample_node option \<Rightarrow> reverse_sample_node list" where
  \<comment> \<open>the nodes of a list from its head on, each one detached from its successor\<close>
  "nodes_of None = []"
| "nodes_of (Some (Node b f c i nxt)) = Node b f c i None # nodes_of nxt"

definition equal_positions :: "8 word list \<Rightarrow> 8 word list \<Rightarrow> nat \<Rightarrow> nat" where
  \<comment> \<open>the number of positions below \<open>n\<close> at which the two buffers hold the same byte\<close>
  "equal_positions original reconstructed n =
     length (filter (\<lambda>(x, y). x = y) (zip (take n original) (take n reconstructed)))"

fun parsed_rows :: "csv_line list \<Rightarrow> csv_row list" where
  \<comment> \<open>the rows of the lines that \<^verbatim>\<open>sscanf\<close> reads in full\<close>
  "parsed_rows [] = []"
| "parsed_rows (None # ls) = parsed_rows ls"
| "parsed_rows (Some row # ls) = row # parsed_rows ls"




definition report_with_malformed_line :: "report_line list" where
  \<comment> \<open>A report with the marker, the two header lines, the line of byte \<open>0x48\<close>, a line
      of 20 characters that does not parse, and the line of byte \<open>0x49\<close>.\<close>
  "report_with_malformed_line =
     [\<lparr> has_marker = False, line_length = 28, report_scan = None \<rparr>,
      \<lparr> has_marker = True, line_length = 22, report_scan = None \<rparr>,
      \<lparr> has_marker = False, line_length = 30, report_scan = None \<rparr>,
      \<lparr> has_marker = False, line_length = 30, report_scan = None \<rparr>,
      \<lparr> has_marker = False, line_length = 25,
        report_scan = Some (0x48, 78471 / 100, 354 / 1000, 5 / 100) \<rparr>,
      \<lparr> has_marker = False, line_length = 20, report_scan = None \<rparr>,
      \<lparr> has_marker = False, line_length = 25,
        report_scan = Some (0x49, 79255 / 100, 358 / 1000, 5 / 100) \<rparr>]"

definition metadata_of_zero_byte :: "json_line list" where
  \<comment> \<open>The metadata document of the single byte \<open>0x00\<close>: the line
      \<^verbatim>\<open>"frequency": 220.00,\<close> follows the line \<^verbatim>\<open>"byte": "0x00",\<close>, which is the first
      line with a byte tag that the search after the frequency tag visits.\<close>
  "metadata_of_zero_byte =
     [\<lparr> frequency_scan = None, byte_scans = [] \<rparr>,
      \<lparr> frequency_scan = None, byte_scans = [] \<rparr>,
      \<lparr> frequency_scan = Some 220, byte_scans = [None, None, None, Some 0] \<rparr>,
      \<lparr> frequency_scan = None, byte_scans = [] \<rparr>]"

fun zero_crossings :: "16 word list \<Rightarrow> nat" where
  \<comment> \<open>the number of neighbours in the buffer between which the sign changes\<close>
  "zero_crossings (a # b # rest) =
     (if (0 \<le> sint a \<and> sint b < 0) \<or> (sint a < 0 \<and> 0 \<le> sint b) then 1 else 0)
       + zero_crossings (b # rest)"
| "zero_crossings [a] = 0"
| "zero_crossings [] = 0"

definition acoustic_sample ::
  "dsonar_config \<Rightarrow> int \<Rightarrow> int \<Rightarrow> reverse_sample_node \<Rightarrow> bool" where
  \<comment> \<open>what the acoustic decoder records for a window of \<open>chunk_size\<close> values\<close>
  "acoustic_sample config chunk_size rate s \<longleftrightarrow>
     confidence_score s = 7 / 10 \<and> next_node s = None \<and> 0 < source_frequency s
     \<and> reconstructed_byte s = frequency_to_byte (source_frequency s) config
     \<and> (\<exists>audio_buffer. length audio_buffer = nat chunk_size
            \<and> source_frequency s = detect_dominant_frequency audio_buffer chunk_size rate)"

definition tone_1220_first_window :: "16 word list" where
  \<comment> \<open>The values \<open>(short)(0.5 * sin(2 * pi * 1220 * i / 44100) * 32767)\<close> for \<open>i\<close> from 0
      to 10: the first 11 values of a tone of 1220 Hz in a container of 44100 Hz.\<close>
  "tone_1220_first_window =
     [0, 2833, 5581, 8161, 10495, 12512, 14153, 15367, 16118, 16383, 16154]"

definition tone_1220_second_window :: "16 word list" where
  \<comment> \<open>the same for \<open>i\<close> from 11 to 21\<close>
  "tone_1220_second_window =
     [15438, 14258, 12647, 10655, 8342, 5778, 3040, 210, - 2626, - 5383, - 7978]"

definition confident_count :: "real \<Rightarrow> real list \<Rightarrow> int" where
  \<comment> \<open>how many of the confidences exceed the threshold\<close>
  "confident_count threshold confidences =
     int (length (filter (\<lambda>c. c > threshold) confidences))"

definition table_with_quiet_row :: "csv_line list" where
  \<comment> \<open>the header and the row \<^verbatim>\<open>0,0x10,16,345.49,0.156,0.050\<close>, whose amplitude is below 0.5\<close>
  "table_with_quiet_row =
     [None,
      Some \<lparr> sample = 0, byte_hex = ''0x10'', byte_dec = 16, frequency_hz = 34549 / 100,
             amplitude = 156 / 1000, duration_s = 5 / 100 \<rparr>]"

definition present_partitions ::
  "(int \<Rightarrow> 8 word list option) \<Rightarrow> int \<Rightarrow> int \<Rightarrow> 8 word list" where
  \<comment> \<open>the partition files that can be opened, from index \<open>i\<close> on, one after the other\<close>
  "present_partitions files i partition_count =
     concat (map (\<lambda>j. case files j of None \<Rightarrow> [] | Some partition_data \<Rightarrow> partition_data)
               [i..partition_count - 1])"

definition missing_partitions :: "(int \<Rightarrow> 8 word list option) \<Rightarrow> int \<Rightarrow> int \<Rightarrow> int list" where
  \<comment> \<open>the indices, from \<open>i\<close> on, of the partition files that cannot be opened\<close>
  "missing_partitions files i partition_count =
     filter (\<lambda>j. files j = None) [i..partition_count - 1]"


definition fitted_window :: "16 word list" where
  \<comment> \<open>eleven values with two changes of sign: one period of a tone of 1220 Hz in a
      container of 13420 Hz\<close>
  "fitted_window = [1000, 1000, 1000, - 1000, - 1000, - 1000, - 1000, - 1000, 1000, 1000, 1000]"

section \<open>Properties\<close>

subsection \<open>Codec\<close>


lemma frequency_to_byte_linear:
  assumes R: "0 < dsonar_config.frequency_range d" and x0: "0 \<le> x" and x1: "x \<le> 255"
  shows "frequency_to_byte (dsonar_config.base_frequency d
            + (x / 255) * dsonar_config.frequency_range d) d = double_to_uchar (x + 1 / 2)"
proof -
  let ?R = "dsonar_config.frequency_range d"
  let ?B = "dsonar_config.base_frequency d"
  let ?f = "?B + (x / 255) * ?R"
  have "0 \<le> (x / 255) * ?R" using R x0 by simp
  then have lo: "\<not> ?f < ?B" by simp
  have "(x / 255) * ?R \<le> 1 * ?R"
    using x1 R by (intro mult_right_mono) simp_all
  then have hi: "\<not> ?f > ?B + ?R" by simp
  have norm: "(?f - ?B) / ?R * 255 + 1 / 2 = x + 1 / 2"
    using R by simp
  have "frequency_to_byte ?f d = double_to_uchar ((?f - ?B) / ?R * 255 + 1 / 2)"
    unfolding frequency_to_byte_def Let_def using lo hi by (simp only: if_False)
  then show ?thesis by (simp only: norm)
qed

text \<open>
  The decoder tolerates an error of the frequency below half a step, \<open>frequency_range / 510\<close>:
  this is what lets it read back the frequencies that the artifacts print with two
  decimals.
\<close>

lemma frequency_roundtrip_tolerance:
  assumes B: "dsonar_config.base_frequency d = sonar_config.base_frequency s"
    and R: "dsonar_config.frequency_range d = sonar_config.frequency_range s"
    and pos: "0 < sonar_config.frequency_range s"
    and small: "\<bar>e\<bar> < sonar_config.frequency_range s / 510"
  shows "frequency_to_byte (map_byte_to_frequency b s + e) d = b"
proof -
  let ?R = "dsonar_config.frequency_range d"
  let ?B = "dsonar_config.base_frequency d"
  define n where "n = unat b"
  define x where "x = real n + 255 * e / ?R"
  have Rpos: "0 < ?R" using R pos by simp
  have "n < 2 ^ LENGTH(8)" unfolding n_def by (rule unsigned_less)
  then have n255: "n \<le> 255" by simp
  have f: "map_byte_to_frequency b s + e = ?B + (x / 255) * ?R"
    unfolding map_byte_to_frequency_def Let_def n_def [symmetric] x_def B [symmetric] R [symmetric]
    using Rpos by (simp add: field_simps)
  have "\<bar>e\<bar> * 510 < ?R" using small R by (simp add: field_simps)
  then have "\<bar>255 * e / ?R\<bar> < 1 / 2"
    using Rpos by (simp add: field_simps abs_mult)
  then have lo: "real n - 1 / 2 < x" and hi: "x < real n + 1 / 2"
    unfolding x_def by linarith+
  have byte: "word_of_nat n = b" by (simp add: n_def)
  consider "x < 0" | "255 < x" | "0 \<le> x" "x \<le> 255" by linarith
  then show ?thesis
  proof cases
    case 1
    then have "n = 0" using lo by linarith
    moreover have "(x / 255) * ?R < 0"
      using 1 Rpos by (intro mult_neg_pos) simp_all
    ultimately show ?thesis using byte unfolding f by (simp add: frequency_to_byte_def)
  next
    case 2
    then have "n = 255" using hi n255 by linarith
    moreover have up: "1 * ?R < (x / 255) * ?R"
      using 2 Rpos by (intro mult_strict_right_mono) simp_all
    moreover have "\<not> (x / 255) * ?R < 0" using up Rpos by linarith
    ultimately show ?thesis using byte unfolding f by (simp add: frequency_to_byte_def)
  next
    case 3
    have "\<lfloor>x + 1 / 2\<rfloor> = int n" using lo hi by linarith
    moreover have "0 \<le> x + 1 / 2" using 3 by simp
    ultimately have "double_to_uchar (x + 1 / 2) = word_of_nat n"
      by (simp add: double_to_uchar_def double_to_int_def)
    then show ?thesis
      unfolding f using frequency_to_byte_linear [OF Rpos 3] byte by simp
  qed
qed

lemma frequency_to_byte_midpoint:
  assumes "0 < dsonar_config.frequency_range config"
  shows "frequency_to_byte (dsonar_config.base_frequency config
           + dsonar_config.frequency_range config / 2) config = 128"
proof -
  have "frequency_to_byte (dsonar_config.base_frequency config
           + ((255 / 2) / 255) * dsonar_config.frequency_range config) config
          = double_to_uchar (255 / 2 + 1 / 2)"
    using assms by (intro frequency_to_byte_linear) simp_all
  then show ?thesis by (simp add: double_to_uchar_def double_to_int_def)
qed





subsection \<open>Sample lists\<close>

lemma nodes_of_append_at_tail:
  "nodes_of (Some (append_at_tail h s)) = nodes_of (Some h) @ nodes_of (Some s)"
  by (induction h s rule: append_at_tail.induct) (simp split: option.split)

lemma nodes_of_add_reverse_sample:
  "nodes_of (add_reverse_sample head (Some s)) = nodes_of head @ nodes_of (Some s)"
  by (cases head) (simp_all add: add_reverse_sample_def nodes_of_append_at_tail)

lemma nodes_of_single: "next_node s = None \<Longrightarrow> nodes_of (Some s) = [s]"
  by (cases s) simp

lemma nodes_of_eq_Nil: "nodes_of head = [] \<longleftrightarrow> head = None"
  by (cases head rule: nodes_of.cases) simp_all

lemma count_samples_nodes: "count_samples head count = count + int (length (nodes_of head))"
  by (induction head count rule: count_samples.induct) simp_all

lemma fill_bytes_nodes:
  "0 \<le> i \<Longrightarrow> length bytes = nat count \<Longrightarrow> i + int (length (nodes_of head)) = count
    \<Longrightarrow> fill_bytes head i count bytes
         = take (nat i) bytes @ map reconstructed_byte (nodes_of head)"
proof (induction head i count bytes rule: fill_bytes.induct)
  case (1 i count bytes)
  then show ?case by simp
next
  case (2 b f c idx nxt i count bytes)
  have lt: "i < count" using 2 by simp
  have n: "nat i < length bytes" using 2 lt by simp
  have "fill_bytes nxt (i + 1) count (bytes[nat i := b])
          = take (nat (i + 1)) (bytes[nat i := b]) @ map reconstructed_byte (nodes_of nxt)"
    using 2 lt by (intro "2.IH") simp_all
  moreover have "take (nat (i + 1)) (bytes[nat i := b]) = take (nat i) bytes @ [b]"
  proof -
    have "nat (i + 1) = Suc (nat i)" using 2 by simp
    then show ?thesis using n by (simp add: take_Suc_conv_app_nth)
  qed
  ultimately show ?case using lt by simp
qed

lemma samples_to_bytes_nodes:
  "samples_to_bytes head length0 =
     (if head = None then (None, length0)
      else (Some (map reconstructed_byte (nodes_of head)), int (length (nodes_of head))))"
proof (cases head)
  case None
  then show ?thesis by (simp add: samples_to_bytes_def)
next
  case (Some h)
  let ?n = "int (length (nodes_of head))"
  have c: "count_samples head 0 = ?n" by (simp add: count_samples_nodes)
  have pos: "?n \<noteq> 0" using Some by (simp add: nodes_of_eq_Nil)
  have "fill_bytes head 0 ?n (replicate (nat ?n) 0)
          = take (nat 0) (replicate (nat ?n) 0) @ map reconstructed_byte (nodes_of head)"
    by (intro fill_bytes_nodes) simp_all
  then show ?thesis using Some c pos by (simp add: samples_to_bytes_def Let_def)
qed

lemma nodes_of_foldl:
  "\<forall>s \<in> set samples. next_node s = None \<Longrightarrow>
   nodes_of (foldl (\<lambda>h s. add_reverse_sample h (Some s)) head samples)
     = nodes_of head @ samples"
  by (induction samples arbitrary: head)
     (simp_all add: nodes_of_add_reverse_sample nodes_of_single)

text \<open>
  Claim C10. A list built from the empty list by calls of \<open>add_reverse_sample\<close>, each with
  a fresh sample (its \<open>next\<close> pointer is \<open>NULL\<close>), holds the samples in the order of the
  calls. \<open>samples_to_bytes\<close> returns for it a buffer with one byte for every sample, the
  \<open>i\<close>-th byte being the \<open>reconstructed_byte\<close> of the \<open>i\<close>-th sample, and sets the length
  to the number of samples; it returns \<open>NULL\<close> for the empty list only, leaving the
  length as it was.
\<close>

theorem add_reverse_sample_order:
  assumes "\<forall>s \<in> set samples. next_node s = None"
  shows "nodes_of (foldl (\<lambda>h s. add_reverse_sample h (Some s)) None samples) = samples
       \<and> samples_to_bytes (foldl (\<lambda>h s. add_reverse_sample h (Some s)) None samples) length0
           = (if samples = [] then (None, length0)
              else (Some (map reconstructed_byte samples), int (length samples)))"
proof -
  let ?head = "foldl (\<lambda>h s. add_reverse_sample h (Some s)) None samples"
  have n: "nodes_of ?head = samples" using nodes_of_foldl [OF assms, of None] by simp
  then have "?head = None \<longleftrightarrow> samples = []" using nodes_of_eq_Nil [of ?head] by simp
  then show ?thesis using n by (simp add: samples_to_bytes_nodes)
qed

theorem add_reverse_sample_order_witness:
  "next_node (create_reverse_sample 1220 0 default_dsonar_config) = None
   \<and> next_node (create_reverse_sample 220 1 default_dsonar_config) = None
   \<and> nodes_of (foldl (\<lambda>h s. add_reverse_sample h (Some s)) None
        [create_reverse_sample 1220 0 default_dsonar_config,
         create_reverse_sample 220 1 default_dsonar_config])
       = [Node 128 1220 (1 / 2) 0 None, Node 0 220 (1 / 2) 1 None]
   \<and> samples_to_bytes (foldl (\<lambda>h s. add_reverse_sample h (Some s)) None
        [create_reverse_sample 1220 0 default_dsonar_config,
         create_reverse_sample 220 1 default_dsonar_config]) 7
       = (Some [128, 0], 2)"
proof -
  have b1: "frequency_to_byte 1220 default_dsonar_config = 128"
    by (simp add: frequency_to_byte_def default_dsonar_config_def double_to_uchar_def
        double_to_int_def)
  have b2: "frequency_to_byte 220 default_dsonar_config = 0"
    by (simp add: frequency_to_byte_def default_dsonar_config_def double_to_uchar_def
        double_to_int_def)
  have h: "\<forall>s \<in> set [create_reverse_sample 1220 0 default_dsonar_config,
                        create_reverse_sample 220 1 default_dsonar_config].
             next_node s = None"
    by (simp add: create_reverse_sample_def)
  show ?thesis
    using add_reverse_sample_order [OF h, of 7]
    by (simp add: create_reverse_sample_def b1 b2)
qed

subsection \<open>Accuracy validation\<close>

lemma foldl_count:
  "foldl (\<lambda>m i. if P i then m + 1 else m) (a :: int) xs = a + int (length (filter P xs))"
  by (induction xs arbitrary: a) simp_all

lemma zip_take_nth:
  assumes "n \<le> length xs" "n \<le> length ys"
  shows "zip (take n xs) (take n ys) = map (\<lambda>i. (xs ! i, ys ! i)) [0..<n]"
  using assms by (intro nth_equalityI) simp_all

lemma equal_positions_index:
  assumes "n \<le> length xs" "n \<le> length ys"
  shows "equal_positions xs ys n = length (filter (\<lambda>i. xs ! i = ys ! i) [0..<n])"
proof -
  have "filter (\<lambda>(x, y). x = y) (map (\<lambda>i. (xs ! i, ys ! i)) [0..<n])
          = map (\<lambda>i. (xs ! i, ys ! i)) (filter (\<lambda>i. xs ! i = ys ! i) [0..<n])"
    by (simp add: filter_map comp_def)
  then show ?thesis
    unfolding equal_positions_def zip_take_nth [OF assms] by simp
qed

lemma accuracy_standalone:
  assumes "0 < len" "nat len \<le> length orig" "nat len \<le> length recon"
  shows "calculate_reconstruction_accuracy (Some orig) (Some recon) len
           = real (equal_positions orig recon (nat len)) / real_of_int len"
  using assms
  by (simp add: calculate_reconstruction_accuracy_def foldl_count equal_positions_index)

text \<open>
  Claim C2. \<open>calculate_reconstruction_accuracy\<close> returns the number of positions at which
  the two buffers hold the same byte, divided by the compared length; \<open>mbx_dsonar\<close> calls
  it with the minimum of the length of the original partition and of the reconstructed
  data (the result is 0 when that minimum is 0). Comparing \<open>[1,2,3,4]\<close> with \<open>[1,2,9,4]\<close>
  gives \<open>3 / 4\<close>.
\<close>

theorem reconstruction_accuracy:
  "(0 < len \<and> nat len \<le> length orig \<and> nat len \<le> length recon
      \<longrightarrow> calculate_reconstruction_accuracy (Some orig) (Some recon) len
            = real (equal_positions orig recon (nat len)) / real_of_int len)
 \<and> (reconstructed_data result = Some recon \<and> data_length result = int (length recon)
      \<longrightarrow> mbx_dsonar_accuracy orig result
            = (if min (length orig) (length recon) = 0 then 0
               else real (equal_positions orig recon (min (length orig) (length recon)))
                      / real (min (length orig) (length recon))))"
proof (intro conjI impI)
  assume "0 < len \<and> nat len \<le> length orig \<and> nat len \<le> length recon"
  then show "calculate_reconstruction_accuracy (Some orig) (Some recon) len
            = real (equal_positions orig recon (nat len)) / real_of_int len"
    by (simp add: accuracy_standalone)
next
  assume a: "reconstructed_data result = Some recon \<and> data_length result = int (length recon)"
  let ?n = "min (length orig) (length recon)"
  have m: "min_c (int (length orig)) (int (length recon)) = int ?n"
    by (simp add: min_c_def min_def)
  have call: "mbx_dsonar_accuracy orig result
                = calculate_reconstruction_accuracy (Some orig) (Some recon) (int ?n)"
    using a m by (simp add: mbx_dsonar_accuracy_def)
  show "mbx_dsonar_accuracy orig result
            = (if ?n = 0 then 0 else real (equal_positions orig recon ?n) / real ?n)"
  proof (cases "?n = 0")
    case True
    then show ?thesis unfolding call
      by (simp add: calculate_reconstruction_accuracy_def)
  next
    case False
    then have "0 < int ?n" "nat (int ?n) \<le> length orig" "nat (int ?n) \<le> length recon"
      by simp_all
    from accuracy_standalone [OF this] False show ?thesis
      unfolding call by simp
  qed
qed

theorem reconstruction_accuracy_witness:
  "(0 :: int) < 4 \<and> nat 4 \<le> length [1, 2, 3, 4 :: 8 word]
   \<and> nat 4 \<le> length [1, 2, 9, 4 :: 8 word]
   \<and> calculate_reconstruction_accuracy (Some [1, 2, 3, 4]) (Some [1, 2, 9, 4]) 4 = 3 / 4
   \<and> mbx_dsonar_accuracy [1, 2, 3, 4]
         \<lparr> reconstructed_data = Some [1, 2, 9, 4], data_length = 4,
           average_confidence = 1, successful_samples = 4, total_samples = 4 \<rparr> = 3 / 4
   \<and> mbx_dsonar_accuracy [1, 2, 3, 4, 5]
         \<lparr> reconstructed_data = Some [1, 2, 9, 4], data_length = 4,
           average_confidence = 1, successful_samples = 4, total_samples = 4 \<rparr> = 3 / 4"
  using reconstruction_accuracy [of 4 "[1, 2, 3, 4]" "[1, 2, 9, 4]"
          "\<lparr> reconstructed_data = Some [1, 2, 9, 4], data_length = 4,
             average_confidence = 1, successful_samples = 4, total_samples = 4 \<rparr>"]
        reconstruction_accuracy [of 4 "[1, 2, 3, 4, 5]" "[1, 2, 9, 4]"
          "\<lparr> reconstructed_data = Some [1, 2, 9, 4], data_length = 4,
             average_confidence = 1, successful_samples = 4, total_samples = 4 \<rparr>"]
  by (simp add: equal_positions_def)

subsection \<open>Frequency table decoder\<close>

lemma read_csv_rows_parsed:
  "0 \<le> bytes_read \<Longrightarrow> length data = nat sample_count
   \<Longrightarrow> bytes_read + int (length lines) \<le> sample_count
   \<Longrightarrow> read_csv_rows lines sample_count (data, bytes_read, n_successful, total_confidence)
       = (take (nat bytes_read) data
            @ map (\<lambda>row. word_of_int (byte_dec row)) (parsed_rows lines)
            @ drop (nat bytes_read + length (parsed_rows lines)) data,
          bytes_read + int (length (parsed_rows lines)),
          n_successful + int (length (parsed_rows lines)),
          total_confidence + sum_list (map amplitude (parsed_rows lines)))"
proof (induction lines arbitrary: data bytes_read n_successful total_confidence)
  case Nil
  then show ?case by simp
next
  case (Cons line rest)
  have lt: "bytes_read < sample_count" using Cons.prems by simp
  show ?case
  proof (cases line)
    case None
    then show ?thesis using Cons.prems lt Cons.IH [of bytes_read data n_successful total_confidence]
      by simp
  next
    case (Some row)
    let ?data = "data[nat bytes_read := word_of_int (byte_dec row)]"
    have k: "nat bytes_read < length data" using Cons.prems lt by simp
    have ih: "read_csv_rows rest sample_count
                (?data, bytes_read + 1, n_successful + 1, total_confidence + amplitude row)
       = (take (nat (bytes_read + 1)) ?data
            @ map (\<lambda>row. word_of_int (byte_dec row)) (parsed_rows rest)
            @ drop (nat (bytes_read + 1) + length (parsed_rows rest)) ?data,
          bytes_read + 1 + int (length (parsed_rows rest)),
          n_successful + 1 + int (length (parsed_rows rest)),
          total_confidence + amplitude row + sum_list (map amplitude (parsed_rows rest)))"
      using Cons.prems by (intro Cons.IH) simp_all
    have s: "nat (bytes_read + 1) = Suc (nat bytes_read)" using Cons.prems by simp
    have t: "take (Suc (nat bytes_read)) ?data
               = take (nat bytes_read) data @ [word_of_int (byte_dec row)]"
      using k by (simp add: take_Suc_conv_app_nth)
    have d: "drop (Suc (nat bytes_read) + length (parsed_rows rest)) ?data
               = drop (Suc (nat bytes_read) + length (parsed_rows rest)) data"
      by simp
    show ?thesis using Some lt ih unfolding s t d by simp
  qed
qed

lemma parsed_rows_map_Some: "parsed_rows (map Some rows) = rows"
  by (induction rows) simp_all

lemma length_parsed_rows: "length (parsed_rows lines) \<le> length lines"
  by (induction lines rule: parsed_rows.induct) simp_all

lemma reconstruct_from_csv_parsed:
  assumes "data_lines \<noteq> []"
  shows "reconstruct_from_csv (Some (header # data_lines)) config
     = Some \<lparr> reconstructed_data =
                Some (map (\<lambda>row. word_of_int (byte_dec row)) (parsed_rows data_lines)
                        @ replicate (length data_lines - length (parsed_rows data_lines)) 0),
              data_length = int (length (parsed_rows data_lines)),
              average_confidence =
                (if parsed_rows data_lines = [] then 0
                 else sum_list (map amplitude (parsed_rows data_lines))
                        / real (length (parsed_rows data_lines))),
              successful_samples = int (length (parsed_rows data_lines)),
              total_samples = int (length data_lines) \<rparr>"
proof -
  let ?n = "int (length data_lines)"
  have "read_csv_rows data_lines ?n (replicate (nat ?n) 0, 0, 0, 0)
       = (take (nat 0) (replicate (nat ?n) 0)
            @ map (\<lambda>row. word_of_int (byte_dec row)) (parsed_rows data_lines)
            @ drop (nat 0 + length (parsed_rows data_lines)) (replicate (nat ?n) 0),
          0 + int (length (parsed_rows data_lines)),
          0 + int (length (parsed_rows data_lines)),
          0 + sum_list (map amplitude (parsed_rows data_lines)))"
    by (intro read_csv_rows_parsed) simp_all
  then show ?thesis using assms
    by (simp add: reconstruct_from_csv_def Let_def)
qed

text \<open>
  Claim C3. For a frequency table whose data rows all parse (there is at least one: a
  table without a data row is refused), the decoder stores the decimal byte field of
  every row, converted to a byte, in the order of the rows; the frequency field is not
  used. \<open>total_samples\<close> is the number of data rows and \<open>average_confidence\<close> the
  arithmetic mean of the amplitude fields. Three rows with the decimal bytes
  \<open>0x41, 0x42, 0x43\<close> give the buffer \<open>[0x41, 0x42, 0x43]\<close> and \<open>total_samples = 3\<close>.
\<close>

theorem reconstruct_from_csv_all_rows:
  "(rows \<noteq> [] \<longrightarrow>
      reconstruct_from_csv (Some (header # map Some rows)) config
        = Some \<lparr> reconstructed_data = Some (map (\<lambda>row. word_of_int (byte_dec row)) rows),
                 data_length = int (length rows),
                 average_confidence = sum_list (map amplitude rows) / real (length rows),
                 successful_samples = int (length rows),
                 total_samples = int (length rows) \<rparr>)
   \<and> reconstruct_from_csv (Some [header]) config = None"
proof (intro conjI impI)
  assume "rows \<noteq> []"
  then show "reconstruct_from_csv (Some (header # map Some rows)) config
        = Some \<lparr> reconstructed_data = Some (map (\<lambda>row. word_of_int (byte_dec row)) rows),
                 data_length = int (length rows),
                 average_confidence = sum_list (map amplitude rows) / real (length rows),
                 successful_samples = int (length rows),
                 total_samples = int (length rows) \<rparr>"
    using reconstruct_from_csv_parsed [of "map Some rows" header config]
    by (simp add: parsed_rows_map_Some)
next
  show "reconstruct_from_csv (Some [header]) config = None"
    by (simp add: reconstruct_from_csv_def)
qed

theorem reconstruct_from_csv_all_rows_witness:
  "reconstruct_from_csv
     (Some [None,
        Some \<lparr> sample = 0, byte_hex = ''0x41'', byte_dec = 65, frequency_hz = 72980 / 100,
               amplitude = 329 / 1000, duration_s = 5 / 100 \<rparr>,
        Some \<lparr> sample = 1, byte_hex = ''0x42'', byte_dec = 66, frequency_hz = 73765 / 100,
               amplitude = 333 / 1000, duration_s = 5 / 100 \<rparr>,
        Some \<lparr> sample = 2, byte_hex = ''0x43'', byte_dec = 67, frequency_hz = 74549 / 100,
               amplitude = 336 / 1000, duration_s = 5 / 100 \<rparr>])
     default_dsonar_config
   = Some \<lparr> reconstructed_data = Some [0x41, 0x42, 0x43], data_length = 3,
            average_confidence = (329 / 1000 + 333 / 1000 + 336 / 1000) / 3,
            successful_samples = 3, total_samples = 3 \<rparr>"
  using reconstruct_from_csv_all_rows
    [of "[\<lparr> sample = 0, byte_hex = ''0x41'', byte_dec = 65, frequency_hz = 72980 / 100,
             amplitude = 329 / 1000, duration_s = 5 / 100 \<rparr>,
          \<lparr> sample = 1, byte_hex = ''0x42'', byte_dec = 66, frequency_hz = 73765 / 100,
             amplitude = 333 / 1000, duration_s = 5 / 100 \<rparr>,
          \<lparr> sample = 2, byte_hex = ''0x43'', byte_dec = 67, frequency_hz = 74549 / 100,
             amplitude = 336 / 1000, duration_s = 5 / 100 \<rparr>]" None default_dsonar_config]
  by simp

subsection \<open>Metadata document decoder\<close>

lemma parse_json_single:
  "parse_json_lines config [\<lparr> frequency_scan = Some f, byte_scans = visited \<rparr>] None 0
     = (Some (Node (frequency_to_byte f config) f
                (if find_byte_val visited 0 \<noteq> 0
                    \<and> frequency_to_byte f config = ucast (find_byte_val visited 0)
                 then 1 else 8 / 10) 0 None), 1)"
  by (simp add: Let_def create_reverse_sample_def add_reverse_sample_def word_greater_zero_iff)

text \<open>
  Claim C5, at the document of the byte \<open>0x00\<close>. The frequency 220 maps back to the byte
  0, and the byte tag found next to it reads \<open>0x00\<close>: the tag is found and matches. The
  decoder records the sample with the confidence \<open>0.8\<close>, where the claim has \<open>1.0\<close>: the
  test \<^verbatim>\<open>byte_val > 0\<close> takes the value 0 of the tag for a tag that was not found.
\<close>

theorem parse_json_metadata_zero_byte:
  "parse_json_metadata (Some metadata_of_zero_byte) None default_dsonar_config
     = (True, Some (Node 0 220 (8 / 10) 0 None))
   \<and> frequency_to_byte 220 default_dsonar_config = 0
   \<and> find_byte_val [None, None, None, Some 0] 0 = 0"
  by (simp add: parse_json_metadata_def metadata_of_zero_byte_def Let_def
      create_reverse_sample_def add_reverse_sample_def frequency_to_byte_def
      default_dsonar_config_def double_to_uchar_def double_to_int_def)

subsection \<open>Analysis report decoder\<close>







subsection \<open>Acoustic decoder\<close>

lemma zip_tl_nth:
  "zip xs (tl xs) = map (\<lambda>i. (xs ! (i - 1), xs ! i)) [1..<length xs]"
  by (intro nth_equalityI) (auto simp add: nth_tl)

lemma adjacent_positions:
  "length (filter (\<lambda>i. Q (xs ! (i - 1)) (xs ! i)) [1..<length xs])
     = length (filter (\<lambda>(a, b). Q a b) (zip xs (tl xs)))"
proof -
  have "filter (\<lambda>(a, b). Q a b) (map (\<lambda>i. (xs ! (i - 1), xs ! i)) [1..<length xs])
          = map (\<lambda>i. (xs ! (i - 1), xs ! i))
              (filter (\<lambda>i. Q (xs ! (i - 1)) (xs ! i)) [1..<length xs])"
    by (simp add: filter_map comp_def)
  then show ?thesis unfolding zip_tl_nth by simp
qed

lemma zero_crossings_zip:
  "zero_crossings xs
     = length (filter (\<lambda>(a, b). (0 \<le> sint a \<and> sint b < 0) \<or> (sint a < 0 \<and> 0 \<le> sint b))
                 (zip xs (tl xs)))"
  by (induction xs rule: zero_crossings.induct) simp_all

lemma crossing_positions:
  "length (filter (\<lambda>i. (0 \<le> sint (xs ! (i - 1)) \<and> sint (xs ! i) < 0)
                          \<or> (sint (xs ! (i - 1)) < 0 \<and> 0 \<le> sint (xs ! i)))
             [1..<length xs]) = zero_crossings xs"
  unfolding zero_crossings_zip
  by (rule adjacent_positions
        [of "\<lambda>a b. (0 \<le> sint a \<and> sint b < 0) \<or> (sint a < 0 \<and> 0 \<le> sint b)" xs])

lemma detect_dominant_frequency_estimate:
  assumes "length audio_buffer = nat buffer_size"
  shows "detect_dominant_frequency audio_buffer buffer_size rate
     = (if 10 \<le> buffer_size \<and> 0 < zero_crossings audio_buffer
           \<and> 200 \<le> (real (zero_crossings audio_buffer) / 2)
                        / (real_of_int buffer_size / real_of_int rate)
           \<and> (real (zero_crossings audio_buffer) / 2)
                 / (real_of_int buffer_size / real_of_int rate) \<le> 3000
        then (real (zero_crossings audio_buffer) / 2)
               / (real_of_int buffer_size / real_of_int rate)
        else 0)"
proof -
  have "foldl (\<lambda>z i.
                  if (0 \<le> sint (audio_buffer ! (i - 1)) \<and> sint (audio_buffer ! i) < 0)
                     \<or> (sint (audio_buffer ! (i - 1)) < 0 \<and> 0 \<le> sint (audio_buffer ! i))
                  then z + 1 else z)
               (0 :: int) [1..<nat buffer_size]
          = int (zero_crossings audio_buffer)"
    unfolding foldl_count assms [symmetric] crossing_positions by simp
  then show ?thesis
    unfolding detect_dominant_frequency_def Let_def by simp
qed

lemma upt11: "[Suc 0..<11] = [1,2,3,4,5,6,7,8,9,10]"
  by (simp add: upt_rec)

lemma detect_first_window: "detect_dominant_frequency tone_1220_first_window 11 44100 = 0"
  by (simp add: detect_dominant_frequency_def tone_1220_first_window_def upt11)

lemma detect_second_window: "detect_dominant_frequency tone_1220_second_window 11 44100 = 22050 / 11"
  by (simp add: detect_dominant_frequency_def tone_1220_second_window_def upt11)

lemma frequency_to_byte_2004: "frequency_to_byte (22050 / 11) default_dsonar_config = 228"
  by (simp add: frequency_to_byte_def default_dsonar_config_def double_to_uchar_def
        double_to_int_def)

lemma default_chunk_size: "double_to_int (dsonar_config.base_frequency default_dsonar_config * (5 / 100)) = 11"
  by (simp add: default_dsonar_config_def double_to_int_def)

lemma detect_default_44100:
  "detect_dominant_frequency audio_buffer 11 44100 = 0
   \<or> detect_dominant_frequency audio_buffer 11 44100 = 22050 / 11"
proof -
  define z where "z = foldl (\<lambda>z i.
                        if (0 \<le> sint (audio_buffer ! (i - 1)) \<and> sint (audio_buffer ! i) < 0)
                           \<or> (sint (audio_buffer ! (i - 1)) < 0 \<and> 0 \<le> sint (audio_buffer ! i))
                        then z + 1 else z)
                     (0 :: int) [1..<nat 11]"
  have d: "detect_dominant_frequency audio_buffer 11 44100 =
     (if z > 0 then
        (if 200 \<le> (real_of_int z / 2) / (11 / 44100) \<and> (real_of_int z / 2) / (11 / 44100) \<le> 3000
         then (real_of_int z / 2) / (11 / 44100) else 0) else 0)"
    unfolding detect_dominant_frequency_def z_def Let_def by simp
  consider "z \<le> 0" | "z = 1" | "2 \<le> z" by linarith
  then show ?thesis
  proof cases
    case 1
    then show ?thesis unfolding d by simp
  next
    case 2
    then show ?thesis unfolding d by simp
  next
    case 3
    then have "real_of_int z \<ge> 2" by simp
    then have "\<not> (real_of_int z / 2) / (11 / 44100) \<le> 3000" by simp
    then show ?thesis unfolding d by simp
  qed
qed

lemma analyze_chunks_new_samples:
  assumes "analyze_chunks config chunk_size rate remaining samples index = Some y"
  shows "\<exists>new. nodes_of (fst y) = nodes_of samples @ new
            \<and> snd y = index + int (length new)
            \<and> (\<forall>s \<in> set new. acoustic_sample config chunk_size rate s)"
  using assms
proof (induction rule: analyze_chunks.raw_induct [rotated 1, consumes 1, case_names step])
  case (step analyze config chunk_size rate remaining samples index y)
  note 1 = step
  show ?case
  proof (cases "chunk_size \<le> int (length remaining)")
    case False
    then have "y = (samples, index)" using 1(2) by simp
    then show ?thesis by simp
  next
    case fits: True
    let ?buffer = "take (nat chunk_size) remaining"
    let ?f = "detect_dominant_frequency ?buffer chunk_size rate"
    let ?s = "set_confidence_score (create_reverse_sample ?f index config) (7 / 10)"
    have body: "(if 0 < ?f
                 then analyze config chunk_size rate (drop (nat chunk_size) remaining)
                        (add_reverse_sample samples (Some ?s)) (index + 1)
                 else analyze config chunk_size rate (drop (nat chunk_size) remaining)
                        samples index) = Some y"
      using 1(2) by (simp only: fits if_True Let_def)
    show ?thesis
    proof (cases "0 < ?f")
      case False
      with body have "analyze config chunk_size rate (drop (nat chunk_size) remaining)
                        samples index = Some y"
        by (simp only: if_False)
      from 1(1) [OF this] show ?thesis .
    next
      case True
      with body have "analyze config chunk_size rate (drop (nat chunk_size) remaining)
              (add_reverse_sample samples (Some ?s)) (index + 1) = Some y"
        by (simp only: if_True)
      then obtain new where new:
        "nodes_of (fst y) = nodes_of (add_reverse_sample samples (Some ?s)) @ new"
        "snd y = index + 1 + int (length new)"
        "\<forall>s \<in> set new. acoustic_sample config chunk_size rate s"
        using 1(1) by blast
      have len: "length ?buffer = nat chunk_size" using fits by simp
      have "\<exists>audio_buffer. length audio_buffer = nat chunk_size
               \<and> ?f = detect_dominant_frequency audio_buffer chunk_size rate"
        using len by blast
      then have ok: "acoustic_sample config chunk_size rate ?s"
        unfolding acoustic_sample_def using True
        by (simp add: create_reverse_sample_def)
      have "nodes_of (Some ?s) = [?s]" by (simp add: create_reverse_sample_def)
      then have "nodes_of (fst y) = nodes_of samples @ (?s # new)"
        using new(1) by (simp add: nodes_of_add_reverse_sample)
      moreover have "snd y = index + int (length (?s # new))" using new(2) by simp
      moreover have "\<forall>s \<in> set (?s # new). acoustic_sample config chunk_size rate s"
        using new(3) ok by simp
      ultimately show ?thesis by blast
    qed
  qed
qed

lemma reconstruct_from_wav_result:
  assumes "reconstruct_from_wav file config = Some (Some r)"
  shows "\<exists>rate channels bits data new.
           file = Some \<lparr> wav_header = Some (rate, channels, bits), wav_data = data \<rparr>
         \<and> new \<noteq> []
         \<and> (\<forall>s \<in> set new. acoustic_sample config
                (double_to_int (dsonar_config.base_frequency config * (5 / 100))) rate s)
         \<and> r = \<lparr> reconstructed_data = Some (map reconstructed_byte new),
                 data_length = int (length new), average_confidence = 7 / 10,
                 successful_samples = int (length new), total_samples = int (length new) \<rparr>"
proof -
  let ?cs = "double_to_int (dsonar_config.base_frequency config * (5 / 100))"
  from assms obtain wav where fl: "file = Some wav"
    by (cases "file") (simp_all add: reconstruct_from_wav_def)
  from assms fl obtain rate channels bits where hdr: "wav_header wav = Some (rate, channels, bits)"
    by (cases "wav_header wav") (auto simp add: reconstruct_from_wav_def)
  from assms fl hdr have cs: "\<not> ?cs < 0"
    by (auto simp add: reconstruct_from_wav_def Let_def split: if_splits)
  from assms fl hdr cs obtain samples index where
    run: "analyze_chunks config ?cs rate (wav_data wav) None 0 = Some (samples, index)"
    by (auto simp add: reconstruct_from_wav_def Let_def split: option.splits)
  from assms fl hdr cs run have idx: "index \<noteq> 0"
    and r: "r = \<lparr> reconstructed_data = fst (samples_to_bytes samples 0),
                  data_length = snd (samples_to_bytes samples 0), average_confidence = 7 / 10,
                  successful_samples = index, total_samples = index \<rparr>"
    by (auto simp add: reconstruct_from_wav_def Let_def split: if_splits prod.splits)
  from analyze_chunks_new_samples [OF run] obtain new where new:
    "nodes_of samples = new" "index = int (length new)"
    "\<forall>s \<in> set new. acoustic_sample config ?cs rate s"
    by auto
  have ne: "new \<noteq> []" using idx new(2) by auto
  then have "samples \<noteq> None" using new(1) nodes_of_eq_Nil by auto
  then have "samples_to_bytes samples 0 = (Some (map reconstructed_byte new), int (length new))"
    using new(1) by (simp add: samples_to_bytes_nodes)
  then have "r = \<lparr> reconstructed_data = Some (map reconstructed_byte new),
                 data_length = int (length new), average_confidence = 7 / 10,
                 successful_samples = int (length new), total_samples = int (length new) \<rparr>"
    using r new(2) by simp
  moreover have "file = Some \<lparr> wav_header = Some (rate, channels, bits), wav_data = wav_data wav \<rparr>"
    using fl hdr by (cases wav) simp
  ultimately show ?thesis using ne new(3) by blast
qed

lemma acoustic_byte_at_44100:
  assumes "acoustic_sample default_dsonar_config 11 44100 s"
  shows "reconstructed_byte s = 228"
proof -
  from assms obtain audio_buffer where
    "source_frequency s = detect_dominant_frequency audio_buffer 11 44100"
    and "0 < source_frequency s"
    and b: "reconstructed_byte s = frequency_to_byte (source_frequency s) default_dsonar_config"
    unfolding acoustic_sample_def by blast
  then have "source_frequency s = 22050 / 11"
    using detect_default_44100 [of audio_buffer] by auto
  then show ?thesis using b by (simp only: frequency_to_byte_2004)
qed

lemma reconstruct_from_wav_at_44100:
  assumes "reconstruct_from_wav
             (Some \<lparr> wav_header = Some (44100, channels, bits), wav_data = data \<rparr>)
             default_dsonar_config = Some (Some r)"
  shows "reconstructed_data r = Some (replicate (nat (total_samples r)) 228)"
proof -
  from reconstruct_from_wav_result [OF assms] obtain new where
    new: "\<forall>s \<in> set new. acoustic_sample default_dsonar_config
            (double_to_int (dsonar_config.base_frequency default_dsonar_config * (5 / 100)))
            44100 s"
    and r: "r = \<lparr> reconstructed_data = Some (map reconstructed_byte new),
                  data_length = int (length new), average_confidence = 7 / 10,
                  successful_samples = int (length new), total_samples = int (length new) \<rparr>"
    by auto
  have "\<forall>s \<in> set new. reconstructed_byte s = 228"
    using new unfolding default_chunk_size by (simp add: acoustic_byte_at_44100)
  then have "map reconstructed_byte new = replicate (length new) 228"
    by (simp add: map_replicate_const [symmetric] cong: map_cong)
  then show ?thesis unfolding r by simp
qed

lemma reconstruct_from_wav_fitted_rate:
  "reconstruct_from_wav
     (Some \<lparr> wav_header = Some (13420, 1, 16), wav_data = fitted_window \<rparr>)
     default_dsonar_config
   = Some (Some \<lparr> reconstructed_data = Some [128], data_length = 1,
                   average_confidence = 7 / 10, successful_samples = 1, total_samples = 1 \<rparr>)"
proof -
  have l: "length fitted_window = 11" by (simp add: fitted_window_def)
  have d: "detect_dominant_frequency fitted_window 11 13420 = 1220"
    by (simp add: detect_dominant_frequency_def fitted_window_def upt11)
  have b: "frequency_to_byte 1220 default_dsonar_config = 128"
    by (simp add: frequency_to_byte_def default_dsonar_config_def double_to_uchar_def
        double_to_int_def)
  have e: "analyze_chunks default_dsonar_config 11 13420 [] samples index
             = Some (samples, index)" for samples index
    by (subst analyze_chunks.simps) simp
  have "analyze_chunks default_dsonar_config 11 13420 fitted_window None 0
          = Some (Some (Node 128 1220 (7 / 10) 0 None), 1)"
    by (subst analyze_chunks.simps)
       (simp add: l d e create_reverse_sample_def b add_reverse_sample_def)
  then show ?thesis
    unfolding reconstruct_from_wav_def default_chunk_size
    by (simp add: samples_to_bytes_def)
qed

lemma analyze_chunks_no_data:
  "analyze_chunks default_dsonar_config 11 44100 [] samples index = Some (samples, index)"
  by (subst analyze_chunks.simps) simp

lemma analyze_chunks_first_window:
  "analyze_chunks default_dsonar_config 11 44100 tone_1220_first_window None 0
     = Some (None, 0)"
proof -
  have "length tone_1220_first_window = 11" by (simp add: tone_1220_first_window_def)
  then show ?thesis
    by (subst analyze_chunks.simps) (simp add: detect_first_window analyze_chunks_no_data)
qed

lemma analyze_chunks_second_window:
  "analyze_chunks default_dsonar_config 11 44100 tone_1220_second_window None 0
     = Some (Some (Node 228 (22050 / 11) (7 / 10) 0 None), 1)"
proof -
  have "length tone_1220_second_window = 11" by (simp add: tone_1220_second_window_def)
  then show ?thesis
    by (subst analyze_chunks.simps)
       (simp add: detect_second_window analyze_chunks_no_data create_reverse_sample_def
          frequency_to_byte_2004 add_reverse_sample_def)
qed

lemma analyze_chunks_two_windows:
  "analyze_chunks default_dsonar_config 11 44100
     (tone_1220_first_window @ tone_1220_second_window) None 0
     = Some (Some (Node 228 (22050 / 11) (7 / 10) 0 None), 1)"
proof -
  have "length tone_1220_first_window = 11" by (simp add: tone_1220_first_window_def)
  moreover have "length tone_1220_second_window = 11"
    by (simp add: tone_1220_second_window_def)
  ultimately show ?thesis
    by (subst analyze_chunks.simps)
       (simp add: detect_first_window analyze_chunks_second_window)
qed

text \<open>
  Claim C7, at a container of 44100 Hz that holds a tone of 1220 Hz, which is
  \<open>base_frequency + 0.5 * frequency_range\<close> of the default configuration. The window is
  \<open>(int)(base_frequency * 0.05) = 11\<close> values long. The first window of the tone has no
  zero crossing and gives no sample: the decoder returns \<open>NULL\<close>. With the second window,
  which has one crossing, the estimate is \<open>44100 / 22\<close> Hz and the decoder returns the
  single byte 228, where the claim has 128 with a tolerance of 1.
\<close>

theorem reconstruct_from_wav_tone_1220:
  "reconstruct_from_wav
     (Some \<lparr> wav_header = Some (44100, 1, 16), wav_data = tone_1220_first_window \<rparr>)
     default_dsonar_config = Some None
   \<and> reconstruct_from_wav
     (Some \<lparr> wav_header = Some (44100, 1, 16),
             wav_data = tone_1220_first_window @ tone_1220_second_window \<rparr>)
     default_dsonar_config
   = Some (Some \<lparr> reconstructed_data = Some [228], data_length = 1,
                   average_confidence = 7 / 10, successful_samples = 1, total_samples = 1 \<rparr>)"
  unfolding reconstruct_from_wav_def default_chunk_size
  by (simp add: analyze_chunks_first_window analyze_chunks_two_windows samples_to_bytes_def)

subsection \<open>Partition combiner\<close>

lemma copy_partition_all:
  "copy_partition partition_data out total_bytes
     = (out @ partition_data, total_bytes + word_of_nat (length partition_data))"
proof (induction partition_data out total_bytes rule: copy_partition.induct)
  case (1 partition_data out total_bytes)
  show ?case
  proof (cases "partition_data = []")
    case True
    then show ?thesis by (subst copy_partition.simps) simp
  next
    case False
    then have pos: "length (take 4096 partition_data) > 0" by simp
    have split: "take 4096 partition_data @ drop 4096 partition_data = partition_data"
      by simp
    have len: "length (take 4096 partition_data) + length (drop 4096 partition_data)
                 = length partition_data"
      by (simp add: min_def)
    have "copy_partition partition_data out total_bytes
            = copy_partition (drop 4096 partition_data) (out @ take 4096 partition_data)
                (total_bytes + word_of_nat (length (take 4096 partition_data)))"
      using pos by (subst copy_partition.simps) (simp add: Let_def)
    also have "\<dots> = ((out @ take 4096 partition_data) @ drop 4096 partition_data,
                      (total_bytes + word_of_nat (length (take 4096 partition_data)))
                        + word_of_nat (length (drop 4096 partition_data)))"
      using pos by (intro "1.IH") simp_all
    also have "\<dots> = (out @ partition_data,
                      total_bytes + word_of_nat (length partition_data))"
      unfolding len [symmetric] using split by (simp add: add.assoc)
    finally show ?thesis .
  qed
qed

lemma upto_first: "i < n \<Longrightarrow> [i..n - 1] = i # [i + 1..n - 1]"
  by (simp add: upto_rec1)

lemma combine_partitions_all:
  "combine_partitions files i partition_count out total_bytes warned
     = (out @ present_partitions files i partition_count,
        total_bytes + word_of_nat (length (present_partitions files i partition_count)),
        warned @ missing_partitions files i partition_count)"
proof (induction files i partition_count out total_bytes warned
        rule: combine_partitions.induct)
  case (1 files i partition_count out total_bytes warned)
  show ?case
  proof (cases "i < partition_count")
    case False
    then show ?thesis
      by (subst combine_partitions.simps)
         (simp add: present_partitions_def missing_partitions_def)
  next
    case True
    note lt = True
    show ?thesis
    proof (cases "files i")
      case None
      have "combine_partitions files i partition_count out total_bytes warned
              = combine_partitions files (i + 1) partition_count out total_bytes (warned @ [i])"
        using lt None by (subst combine_partitions.simps) simp
      also have "\<dots> = (out @ present_partitions files (i + 1) partition_count,
           total_bytes + word_of_nat (length (present_partitions files (i + 1) partition_count)),
           (warned @ [i]) @ missing_partitions files (i + 1) partition_count)"
        using lt None by (rule "1.IH"(1))
      finally show ?thesis
        using lt None
        by (simp add: present_partitions_def missing_partitions_def upto_first)
    next
      case (Some partition_data)
      have c: "copy_partition partition_data out total_bytes
                 = (out @ partition_data, total_bytes + word_of_nat (length partition_data))"
        by (rule copy_partition_all)
      have "combine_partitions files i partition_count out total_bytes warned
              = combine_partitions files (i + 1) partition_count (out @ partition_data)
                  (total_bytes + word_of_nat (length partition_data)) warned"
        using lt Some by (subst combine_partitions.simps) (simp add: c)
      also have "\<dots> = ((out @ partition_data) @ present_partitions files (i + 1) partition_count,
           (total_bytes + word_of_nat (length partition_data))
             + word_of_nat (length (present_partitions files (i + 1) partition_count)),
           warned @ missing_partitions files (i + 1) partition_count)"
        using lt Some c [symmetric] by (rule "1.IH"(2))
      finally show ?thesis
        using lt Some
        by (simp add: present_partitions_def missing_partitions_def upto_first add.assoc)
    qed
  qed
qed


lemma combine_partition_files_wraps:
  "combine_partition_files files True partition_count
     = \<lparr> output_file = Some (present_partitions files 0 partition_count),
         warnings = missing_partitions files 0 partition_count,
         success = (0 < sint (word_of_nat (length (present_partitions files 0 partition_count))
                                :: 32 word)) \<rparr>"
  by (simp add: combine_partition_files_def combine_partitions_all)







subsection \<open>Statistics of a reconstruction\<close>

lemma sample_statistics_nodes:
  "sample_statistics threshold head (n_total, n_successful, total_confidence)
     = (n_total + int (length (nodes_of head)),
        n_successful + confident_count threshold (map confidence_score (nodes_of head)),
        total_confidence + sum_list (map confidence_score (nodes_of head)))"
  by (induction threshold head "(n_total, n_successful, total_confidence)"
        arbitrary: n_total n_successful total_confidence rule: sample_statistics.induct)
     (simp_all add: confident_count_def)

lemma successful_samples_result_of_samples:
  "successful_samples (result_of_samples threshold samples)
     = confident_count threshold (map confidence_score (nodes_of samples))"
  by (simp add: result_of_samples_def sample_statistics_nodes split: prod.split)

lemma total_samples_result_of_samples:
  "total_samples (result_of_samples threshold samples) = int (length (nodes_of samples))"
  by (simp add: result_of_samples_def sample_statistics_nodes split: prod.split)

lemma reconstruct_from_json_Some:
  assumes "reconstruct_from_json json_file config = Some r"
  shows "r = result_of_samples (1 / 2) (snd (parse_json_metadata json_file None config))"
  using assms
  by (auto simp add: reconstruct_from_json_def split: option.splits prod.splits bool.splits)

lemma reconstruct_from_analysis_Some:
  assumes "reconstruct_from_analysis analysis_file config = Some r"
  shows "r = result_of_samples (6 / 10) (snd (parse_analysis_report analysis_file None config))"
  using assms
  by (auto simp add: reconstruct_from_analysis_def split: option.splits prod.splits bool.splits)

lemma reconstruct_from_csv_Some:
  assumes "reconstruct_from_csv (Some (header # data_lines)) config = Some r"
  shows "successful_samples r = int (length (parsed_rows data_lines))"
proof -
  have "data_lines \<noteq> []" using assms by (auto simp add: reconstruct_from_csv_def)
  from reconstruct_from_csv_parsed [OF this, of header config] assms show ?thesis by simp
qed

text \<open>
  Claim C4, as the code has it. \<open>successful_samples\<close> is the number of samples whose
  confidence exceeds \<open>0.5\<close> for the metadata decoder and \<open>0.6\<close> for the analysis report
  decoder. The acoustic decoder counts every sample: the number equals \<open>total_samples\<close> and
  the number of reconstructed bytes. The frequency table decoder applies no threshold
  either: it counts every row that parses, whatever its amplitude.
\<close>

theorem successful_samples_counted:
  "(reconstruct_from_csv (Some (header # data_lines)) config = Some r1
      \<longrightarrow> successful_samples r1 = int (length (parsed_rows data_lines)))
 \<and> (reconstruct_from_json json_file config = Some r2
      \<longrightarrow> successful_samples r2
            = confident_count (1 / 2)
                (map confidence_score (nodes_of (snd (parse_json_metadata json_file None config)))))
 \<and> (reconstruct_from_analysis analysis_file config = Some r3
      \<longrightarrow> successful_samples r3
            = confident_count (6 / 10)
                (map confidence_score
                   (nodes_of (snd (parse_analysis_report analysis_file None config)))))
 \<and> (reconstruct_from_wav wav config = Some (Some r4)
      \<longrightarrow> successful_samples r4 = total_samples r4 \<and> successful_samples r4 = data_length r4)"
proof (intro conjI impI)
  assume "reconstruct_from_csv (Some (header # data_lines)) config = Some r1"
  then show "successful_samples r1 = int (length (parsed_rows data_lines))"
    by (rule reconstruct_from_csv_Some)
next
  assume "reconstruct_from_json json_file config = Some r2"
  then show "successful_samples r2
            = confident_count (1 / 2)
                (map confidence_score (nodes_of (snd (parse_json_metadata json_file None config))))"
    using reconstruct_from_json_Some [of json_file config r2]
    by (simp add: successful_samples_result_of_samples)
next
  assume "reconstruct_from_analysis analysis_file config = Some r3"
  then show "successful_samples r3
            = confident_count (6 / 10)
                (map confidence_score
                   (nodes_of (snd (parse_analysis_report analysis_file None config))))"
    using reconstruct_from_analysis_Some [of analysis_file config r3]
    by (simp add: successful_samples_result_of_samples)
next
  assume a: "reconstruct_from_wav wav config = Some (Some r4)"
  from reconstruct_from_wav_result [OF a]
  show "successful_samples r4 = total_samples r4" by auto
  from reconstruct_from_wav_result [OF a]
  show "successful_samples r4 = data_length r4" by auto
qed

theorem successful_samples_counted_witness:
  "reconstruct_from_csv (Some table_with_quiet_row) default_dsonar_config
     = Some \<lparr> reconstructed_data = Some [16], data_length = 1,
              average_confidence = 156 / 1000, successful_samples = 1, total_samples = 1 \<rparr>
   \<and> parsed_rows (tl table_with_quiet_row) = [the (table_with_quiet_row ! 1)]
   \<and> reconstruct_from_json (Some metadata_of_zero_byte) default_dsonar_config
     = Some \<lparr> reconstructed_data = Some [0], data_length = 1,
              average_confidence = 8 / 10, successful_samples = 1, total_samples = 1 \<rparr>
   \<and> confident_count (1 / 2) [8 / 10] = 1
   \<and> reconstruct_from_analysis (Some report_with_malformed_line) default_dsonar_config
     = Some \<lparr> reconstructed_data = Some [0x48, 0x49], data_length = 2,
              average_confidence = 85 / 100, successful_samples = 2, total_samples = 2 \<rparr>
   \<and> confident_count (6 / 10) [85 / 100, 85 / 100] = 2
   \<and> reconstruct_from_wav
        (Some \<lparr> wav_header = Some (44100, 1, 16),
                wav_data = tone_1220_first_window @ tone_1220_second_window \<rparr>)
        default_dsonar_config
     = Some (Some \<lparr> reconstructed_data = Some [228], data_length = 1,
                     average_confidence = 7 / 10, successful_samples = 1, total_samples = 1 \<rparr>)"
proof -
  let ?r1 = "\<lparr> reconstructed_data = Some [16 :: 8 word], data_length = 1,
              average_confidence = 156 / 1000, successful_samples = 1, total_samples = 1 \<rparr>"
  let ?r2 = "\<lparr> reconstructed_data = Some [0 :: 8 word], data_length = 1,
              average_confidence = 8 / 10, successful_samples = 1, total_samples = 1 \<rparr>"
  let ?r3 = "\<lparr> reconstructed_data = Some [0x48, 0x49 :: 8 word], data_length = 2,
              average_confidence = 85 / 100, successful_samples = 2, total_samples = 2 \<rparr>"
  let ?r4 = "\<lparr> reconstructed_data = Some [228 :: 8 word], data_length = 1,
              average_confidence = 7 / 10, successful_samples = 1, total_samples = 1 \<rparr>"
  let ?wav = "Some \<lparr> wav_header = Some (44100, 1, 16),
                wav_data = tone_1220_first_window @ tone_1220_second_window \<rparr>"
  have b0: "frequency_to_byte 220 default_dsonar_config = 0"
    by (simp add: frequency_to_byte_def default_dsonar_config_def double_to_uchar_def
        double_to_int_def)
  have b1: "frequency_to_byte (78471 / 100) default_dsonar_config = 0x48"
    by (simp add: frequency_to_byte_def default_dsonar_config_def double_to_uchar_def
        double_to_int_def)
  have b2: "frequency_to_byte (15851 / 20) default_dsonar_config = 0x49"
    by (simp add: frequency_to_byte_def default_dsonar_config_def double_to_uchar_def
        double_to_int_def)
  have e1: "reconstruct_from_csv (Some (None # tl table_with_quiet_row)) default_dsonar_config
              = Some ?r1"
    by (simp add: reconstruct_from_csv_def table_with_quiet_row_def)
  have t: "None # tl table_with_quiet_row = table_with_quiet_row"
    by (simp add: table_with_quiet_row_def)
  have e2: "reconstruct_from_json (Some metadata_of_zero_byte) default_dsonar_config = Some ?r2"
    by (simp add: reconstruct_from_json_def parse_json_metadata_def metadata_of_zero_byte_def
        Let_def create_reverse_sample_def add_reverse_sample_def b0 result_of_samples_def
        samples_to_bytes_def)
  have e3: "reconstruct_from_analysis (Some report_with_malformed_line) default_dsonar_config
              = Some ?r3"
    by (simp add: reconstruct_from_analysis_def parse_analysis_report_def
        report_with_malformed_line_def create_reverse_sample_def add_reverse_sample_def b1 b2
        result_of_samples_def samples_to_bytes_nodes)
  have e4: "reconstruct_from_wav ?wav default_dsonar_config = Some (Some ?r4)"
    unfolding reconstruct_from_wav_def default_chunk_size
    by (simp add: analyze_chunks_two_windows samples_to_bytes_def)
  from successful_samples_counted
         [of None "tl table_with_quiet_row" default_dsonar_config ?r1
             "Some metadata_of_zero_byte" ?r2 "Some report_with_malformed_line" ?r3 ?wav ?r4]
       e1 e2 e3 e4
  have "successful_samples ?r1 = int (length (parsed_rows (tl table_with_quiet_row)))"
    by blast
  moreover have "parsed_rows (tl table_with_quiet_row) = [the (table_with_quiet_row ! 1)]"
    by (simp add: table_with_quiet_row_def)
  moreover have "confident_count (1 / 2) [8 / 10] = 1"
    and "confident_count (6 / 10) [85 / 100, 85 / 100] = 2"
    by (simp_all add: confident_count_def)
  ultimately show ?thesis using e1 e2 e3 e4 unfolding t by simp
qed

text \<open>
  The table decoder counts a row whose amplitude, its confidence, is \<open>0.156\<close>: no sample
  of that table exceeds \<open>0.5\<close>, and \<open>successful_samples\<close> is 1.
\<close>

theorem table_counts_quiet_row:
  "map_option successful_samples
     (reconstruct_from_csv (Some table_with_quiet_row) default_dsonar_config) = Some 1
   \<and> confident_count (1 / 2) (map amplitude (parsed_rows (tl table_with_quiet_row))) = 0"
  by (simp add: reconstruct_from_csv_def table_with_quiet_row_def confident_count_def)

end
